theory Spec2Isabelle
  imports Main "HOL-Library.Sublist"
begin

section \<open>Data model\<close>

text \<open>
  The rows of \<^verbatim>\<open>models.py\<close>. The columns named \<^verbatim>\<open>id\<close> carry the table's name, since
  \<open>id\<close> is the identity function of HOL. A timestamp is a point on the server's clock.
\<close>

record User =
  User_id :: int
  username :: string
  password :: string
  language :: string

record Message =
  Message_id :: int
  sender_id :: int
  receiver_id :: int
  original_message :: string
  translated_message :: string
  timestamp :: int

text \<open>The database session \<^verbatim>\<open>db\<close>: both tables, rows in insertion order.\<close>

record store =
  users :: "User list"
  messages :: "Message list"

text \<open>
  A \<^verbatim>\<open>WebSocket\<close> object is known by its identity: two connections of one user are two
  different objects.
\<close>

type_synonym websocket = nat

text \<open>The exceptions of the Python code that the model distinguishes.\<close>

datatype error =
    JWTError
  | KeyError string
  | TypeError
  | AttributeError
  | WebSocketDisconnect
  | JSONDecodeError
  | TransportError

text \<open>
  The values of the outbound dictionary of \<^verbatim>\<open>websocket_endpoint\<close>: integers, strings, and
  \<^verbatim>\<open>str(message.timestamp)\<close>, kept as the timestamp it renders.
\<close>

datatype json = JInt int | JStr string | JStrOfTime int

type_synonym frame = "(string \<times> json) list"

text \<open>What the code does to the outside: calls on WebSocket objects, in order.\<close>

datatype effect =
    Accept websocket
  | Close websocket int
  | SendJson websocket frame

text \<open>
  The state the handlers share and act on: \<^verbatim>\<open>manager.active_connections\<close>, the
  database, the server clock read by \<^verbatim>\<open>func.now()\<close>, the WebSocket objects whose
  transport fails (a call on one of them raises), the calls made so far, and the number
  of database sessions that handlers have opened with \<^verbatim>\<open>SessionLocal()\<close> and not yet
  released with \<^verbatim>\<open>db.close()\<close>.
\<close>

record world =
  active_connections :: "int \<rightharpoonup> websocket"
  db :: store
  now :: int
  broken :: "websocket set"
  trace :: "effect list"
  open_sessions :: nat

text \<open>
  The collaborators that are not part of the source files: \<^verbatim>\<open>jwt.decode\<close> with the
  server's key (\<open>None\<close> when it raises; the payload maps claim names to string claims),
  \<^verbatim>\<open>auth.get_user\<close>, and the \<^verbatim>\<open>translate\<close> method of googletrans (\<open>None\<close> when it
  raises).
\<close>

record env =
  jwt_decode :: "string \<Rightarrow> (string \<rightharpoonup> string) option"
  get_user :: "store \<Rightarrow> string \<Rightarrow> User option"
  translator_translate :: "string \<Rightarrow> string \<Rightarrow> string option"

text \<open>
  What \<^verbatim>\<open>websocket.receive_json()\<close> gives: it raises, or it returns the decoded JSON.
  A JSON object is kept by its two fields of interest, each present or not; every other
  JSON value is \<open>NotObject\<close>. A field that is present holds a value of the protocol's
  type, an integer receiver id and a string message; what the database does with values
  of other types is outside the source files and is not modelled.
\<close>

datatype data =
    Object (receiver_id_field: "int option") (message_field: "string option")
  | NotObject

datatype received = Raises error | Json data

text \<open>How a run of the handler ends: it returns, an exception leaves it, or it is still
  waiting in \<^verbatim>\<open>receive_json\<close> when the inbound frames given are used up.\<close>

datatype outcome = Returned | Escaped error | Awaiting

section \<open>WebSocket calls\<close>

definition accept :: "websocket \<Rightarrow> world \<Rightarrow> (error + unit) \<times> world" where
  "accept ws w =
     (if ws \<in> broken w then (Inl TransportError, w)
      else (Inr (), w\<lparr>trace := trace w @ [Accept ws]\<rparr>))"

definition close :: "websocket \<Rightarrow> int \<Rightarrow> world \<Rightarrow> (error + unit) \<times> world" where
  "close ws code w =
     (if ws \<in> broken w then (Inl TransportError, w)
      else (Inr (), w\<lparr>trace := trace w @ [Close ws code]\<rparr>))"

definition send_json :: "websocket \<Rightarrow> frame \<Rightarrow> world \<Rightarrow> (error + unit) \<times> world" where
  "send_json ws message w =
     (if ws \<in> broken w then (Inl TransportError, w)
      else (Inr (), w\<lparr>trace := trace w @ [SendJson ws message]\<rparr>))"

section \<open>ConnectionManager\<close>

text \<open>
  Python's \<^verbatim>\<open>d.pop(key, default)\<close> and \<^verbatim>\<open>d.pop(key)\<close>: the second argument is the default
  when one is given. The value returned is \<open>Some v\<close> for a stored \<open>v\<close>; the default
  \<^verbatim>\<open>None\<close> of Python is \<open>None\<close>. The \<^verbatim>\<open>KeyError\<close> of a missing key without a default
  does not render the key.
\<close>

definition dict_pop ::
  "('k \<rightharpoonup> 'v) \<Rightarrow> 'k \<Rightarrow> 'v option option \<Rightarrow> (error + 'v option) \<times> ('k \<rightharpoonup> 'v)" where
  "dict_pop d k dflt =
     (case d k of
        Some v \<Rightarrow> (Inr (Some v), d(k := None))
      | None \<Rightarrow>
          (case dflt of
             Some x \<Rightarrow> (Inr x, d)
           | None \<Rightarrow> (Inl (KeyError ''key''), d)))"

definition connect :: "websocket \<Rightarrow> int \<Rightarrow> world \<Rightarrow> (error + unit) \<times> world" where
  "connect ws user_id w =
     (case accept ws w of
        (Inl e, w') \<Rightarrow> (Inl e, w')
      | (Inr _, w') \<Rightarrow>
          (Inr (), w'\<lparr>active_connections := (active_connections w')(user_id \<mapsto> ws)\<rparr>))"

definition disconnect :: "int \<Rightarrow> world \<Rightarrow> (error + unit) \<times> world" where
  "disconnect user_id w =
     (case dict_pop (active_connections w) user_id (Some None) of
        (Inl e, d) \<Rightarrow> (Inl e, w\<lparr>active_connections := d\<rparr>)
      | (Inr _, d) \<Rightarrow> (Inr (), w\<lparr>active_connections := d\<rparr>))"

definition send_personal_message :: "frame \<Rightarrow> int \<Rightarrow> world \<Rightarrow> (error + unit) \<times> world" where
  "send_personal_message message user_id w =
     (case active_connections w user_id of
        Some ws \<Rightarrow> send_json ws message w
      | None \<Rightarrow> (Inr (), w))"

text \<open>The registry's lookup is the dictionary itself.\<close>

definition lookup :: "world \<Rightarrow> int \<Rightarrow> websocket option" where
  "lookup w user_id = active_connections w user_id"

text \<open>How often the calls made so far closed a given WebSocket.\<close>

definition closes :: "websocket \<Rightarrow> world \<Rightarrow> nat" where
  "closes ws w = length (filter (\<lambda>e. case e of Close c _ \<Rightarrow> c = ws | _ \<Rightarrow> False) (trace w))"

section \<open>translate.py\<close>

definition translate_text :: "env \<Rightarrow> string \<Rightarrow> string \<Rightarrow> string" where
  "translate_text env text target_language =
     (case translator_translate env text target_language of
        Some translation \<Rightarrow> translation
      | None \<Rightarrow> text)"

section \<open>The query endpoint\<close>

definition get_messages :: "store \<Rightarrow> User \<Rightarrow> int \<Rightarrow> Message list" where
  "get_messages d current_user user_id =
     filter (\<lambda>m. (sender_id m = User_id current_user \<and> receiver_id m = user_id) \<or>
                 (sender_id m = user_id \<and> receiver_id m = User_id current_user))
       (messages d)"

section \<open>The streaming endpoint\<close>

text \<open>\<^verbatim>\<open>data["receiver_id"]\<close> and \<^verbatim>\<open>data["message"]\<close>.\<close>

definition getitem_receiver_id :: "data \<Rightarrow> error + int" where
  "getitem_receiver_id d =
     (case d of
        NotObject \<Rightarrow> Inl TypeError
      | Object r _ \<Rightarrow> (case r of None \<Rightarrow> Inl (KeyError ''receiver_id'') | Some v \<Rightarrow> Inr v))"

definition getitem_message :: "data \<Rightarrow> error + string" where
  "getitem_message d =
     (case d of
        NotObject \<Rightarrow> Inl TypeError
      | Object _ m \<Rightarrow> (case m of None \<Rightarrow> Inl (KeyError ''message'') | Some v \<Rightarrow> Inr v))"

text \<open>\<^verbatim>\<open>db.query(models.User).filter(models.User.id == rid).first()\<close>.\<close>

definition query_user_first :: "store \<Rightarrow> int \<Rightarrow> User option" where
  "query_user_first d rid = find (\<lambda>u. User_id u = rid) (users d)"

text \<open>
  \<^verbatim>\<open>db.add(message); db.commit(); db.refresh(message)\<close>: the row receives the next integer
  primary key and the server's current time, and is appended to the table.
\<close>

definition next_id :: "Message list \<Rightarrow> int" where
  "next_id ms = fold max (map Message_id ms) 0 + 1"

definition new_Message :: "world \<Rightarrow> int \<Rightarrow> int \<Rightarrow> string \<Rightarrow> string \<Rightarrow> Message" where
  "new_Message w sender receiver original translated =
     \<lparr>Message_id = next_id (messages (db w)), sender_id = sender, receiver_id = receiver,
      original_message = original, translated_message = translated, timestamp = now w\<rparr>"

definition add_commit :: "Message \<Rightarrow> world \<Rightarrow> world" where
  "add_commit m w = w\<lparr>db := (db w)\<lparr>messages := messages (db w) @ [m]\<rparr>\<rparr>"

definition outbound :: "User \<Rightarrow> int \<Rightarrow> Message \<Rightarrow> frame" where
  "outbound user rid m =
     [(''id'', JInt (Message_id m)),
      (''sender_id'', JInt (User_id user)),
      (''receiver_id'', JInt rid),
      (''original_message'', JStr (original_message m)),
      (''translated_message'', JStr (translated_message m)),
      (''timestamp'', JStrOfTime (timestamp m))]"

text \<open>One pass through the body of \<^verbatim>\<open>while True\<close>, after \<^verbatim>\<open>receive_json\<close> has returned.\<close>

definition handle_frame :: "env \<Rightarrow> User \<Rightarrow> data \<Rightarrow> world \<Rightarrow> (error + unit) \<times> world" where
  "handle_frame env user d w =
     (case getitem_receiver_id d of
        Inl e \<Rightarrow> (Inl e, w)
      | Inr rid \<Rightarrow>
          (case query_user_first (db w) rid of
             None \<Rightarrow> (Inr (), w)
           | Some receiver \<Rightarrow>
               (case getitem_message d of
                  Inl e \<Rightarrow> (Inl e, w)
                | Inr text \<Rightarrow>
                    (let translated = translate_text env text (language receiver);
                         message = new_Message w (User_id user) rid text translated;
                         w' = add_commit message w
                     in send_personal_message (outbound user rid message) rid w'))))"

text \<open>
  The loop over the inbound frames. It ends only by an exception: \<open>Some e\<close> is the
  exception that ended it, \<open>None\<close> says that the frames given are used up and the handler
  waits for the next one.
\<close>

fun receive_loop :: "env \<Rightarrow> User \<Rightarrow> received list \<Rightarrow> world \<Rightarrow> error option \<times> world" where
  "receive_loop env user [] w = (None, w)"
| "receive_loop env user (Raises e # rest) w = (Some e, w)"
| "receive_loop env user (Json d # rest) w =
     (case handle_frame env user d w of
        (Inl e, w') \<Rightarrow> (Some e, w')
      | (Inr _, w') \<Rightarrow> receive_loop env user rest w')"

text \<open>
  The handler of \<^verbatim>\<open>except Exception\<close>. Its argument is the local variable \<^verbatim>\<open>user\<close>:
  unbound (\<open>None\<close>), bound to Python's \<^verbatim>\<open>None\<close>, or bound to a row. With \<^verbatim>\<open>user\<close> bound
  to \<^verbatim>\<open>None\<close>, \<^verbatim>\<open>user.id\<close> raises inside the handler and the exception leaves the endpoint.
\<close>

definition on_exception :: "User option option \<Rightarrow> world \<Rightarrow> outcome \<times> world" where
  "on_exception user_local w =
     (case user_local of
        None \<Rightarrow> (Returned, w)
      | Some None \<Rightarrow> (Escaped AttributeError, w)
      | Some (Some user) \<Rightarrow>
          (case disconnect (User_id user) w of
             (Inl e, w') \<Rightarrow> (Escaped e, w')
           | (Inr _, w') \<Rightarrow> (Returned, w')))"

text \<open>
  The two lines \<^verbatim>\<open>await websocket.close(code=1008); return\<close>, with the binding of
  \<^verbatim>\<open>user\<close> at that point: an exception of \<^verbatim>\<open>close\<close> is caught by \<^verbatim>\<open>except Exception\<close>.
\<close>

definition close_and_return :: "websocket \<Rightarrow> User option option \<Rightarrow> world \<Rightarrow> outcome \<times> world" where
  "close_and_return ws user_local w =
     (case close ws 1008 w of
        (Inl e, w') \<Rightarrow> on_exception user_local w'
      | (Inr _, w') \<Rightarrow> (Returned, w'))"

text \<open>
  \<^verbatim>\<open>db = SessionLocal()\<close> and, in the \<^verbatim>\<open>finally\<close> clause, \<^verbatim>\<open>db.close()\<close>: the handler
  takes a database session of its own and releases it. Neither changes a row.
\<close>

definition SessionLocal :: "world \<Rightarrow> world" where
  "SessionLocal w = w\<lparr>open_sessions := open_sessions w + 1\<rparr>"

definition db_close :: "world \<Rightarrow> world" where
  "db_close w = w\<lparr>open_sessions := open_sessions w - 1\<rparr>"

text \<open>
  How control leaves the inner \<^verbatim>\<open>try ... finally\<close> block, once the \<^verbatim>\<open>finally\<close> clause has
  run: by \<^verbatim>\<open>return\<close>, or by an exception on its way to \<^verbatim>\<open>except Exception\<close>, together
  with the value the local variable \<^verbatim>\<open>user\<close> is bound to (Python's \<^verbatim>\<open>None\<close> or a row).
  \<open>Waiting\<close> says that control is still inside the loop, so that \<^verbatim>\<open>finally\<close> has not run.
\<close>

datatype block_exit = Return | Raise error "User option" | Waiting

text \<open>
  The inner block, lines 130 to 166, entered with the session open. \<^verbatim>\<open>db.close()\<close> runs
  on every way out of it, before anything the outer \<^verbatim>\<open>except\<close> clause does.
\<close>

definition session_block ::
  "env \<Rightarrow> websocket \<Rightarrow> string \<Rightarrow> received list \<Rightarrow> world \<Rightarrow> block_exit \<times> world" where
  "session_block env ws username' inbound w =
     (case get_user env (db w) username' of
        None \<Rightarrow>
          (case close ws 1008 w of
             (Inl e, w') \<Rightarrow> (Raise e None, db_close w')
           | (Inr _, w') \<Rightarrow> (Return, db_close w'))
      | Some user \<Rightarrow>
          (case connect ws (User_id user) w of
             (Inl e, w') \<Rightarrow> (Raise e (Some user), db_close w')
           | (Inr _, w') \<Rightarrow>
               (case receive_loop env user inbound w' of
                  (None, w'') \<Rightarrow> (Waiting, w'')
                | (Some e, w'') \<Rightarrow> (Raise e (Some user), db_close w''))))"

text \<open>
  \<^verbatim>\<open>websocket_endpoint\<close>, run on the inbound frames given. \<^verbatim>\<open>not username\<close> holds for a
  missing claim and for the empty string. An exception that leaves the inner block goes
  to the \<^verbatim>\<open>except\<close> clause with \<^verbatim>\<open>user\<close> bound.
\<close>

definition websocket_endpoint ::
  "env \<Rightarrow> websocket \<Rightarrow> string \<Rightarrow> received list \<Rightarrow> world \<Rightarrow> outcome \<times> world" where
  "websocket_endpoint env ws token inbound w =
     (case jwt_decode env token of
        None \<Rightarrow> on_exception None w
      | Some payload \<Rightarrow>
          (case payload ''sub'' of
             None \<Rightarrow> close_and_return ws None w
           | Some username' \<Rightarrow>
               (if username' = [] then close_and_return ws None w
                else
                  (case session_block env ws username' inbound (SessionLocal w) of
                     (Return, w') \<Rightarrow> (Returned, w')
                   | (Waiting, w') \<Rightarrow> (Awaiting, w')
                   | (Raise e user_local, w') \<Rightarrow> on_exception (Some user_local) w'))))"

section \<open>Example states\<close>

definition alice :: User where
  "alice = \<lparr>User_id = 1, username = ''alice'', password = ''x'', language = ''en''\<rparr>"

definition bob :: User where
  "bob = \<lparr>User_id = 2, username = ''bob'', password = ''y'', language = ''es''\<rparr>"

definition world0 :: world where
  "world0 = \<lparr>active_connections = Map.empty, db = \<lparr>users = [alice, bob], messages = []\<rparr>,
             now = 100, broken = {}, trace = [], open_sessions = 0\<rparr>"

definition env0 :: env where
  "env0 = \<lparr>jwt_decode = (\<lambda>t. if t = ''A'' then Some [''sub'' \<mapsto> ''alice'']
                             else if t = ''B'' then Some [''sub'' \<mapsto> ''bob'']
                             else if t = ''C'' then Some [''sub'' \<mapsto> ''carol'']
                             else if t = ''E'' then Some Map.empty
                             else None),
           get_user = (\<lambda>d name. find (\<lambda>u. username u = name) (users d)),
           translator_translate = (\<lambda>text target.
             if text = ''hello'' \<and> target = ''es'' then Some ''hola'' else None)\<rparr>"

text \<open>Bob is registered on channel 21, whose transport has since failed.\<close>

definition world_dead :: world where
  "world_dead = (snd (connect 21 2 world0))\<lparr>broken := {21}\<rparr>"

text \<open>Two rows between Alice and Bob, the second stamped earlier than the first.\<close>

definition store_clock_back :: store where
  "store_clock_back =
     \<lparr>users = [alice, bob],
      messages =
        [\<lparr>Message_id = 1, sender_id = 1, receiver_id = 2, original_message = ''hello'',
          translated_message = ''hola'', timestamp = 100\<rparr>,
         \<lparr>Message_id = 2, sender_id = 2, receiver_id = 1, original_message = ''si'',
          translated_message = ''yes'', timestamp = 90\<rparr>]\<rparr>"

text \<open>Three rows in the order of their timestamps; the second is for a third user.\<close>

definition store_three :: store where
  "store_three =
     \<lparr>users = [alice, bob],
      messages =
        [\<lparr>Message_id = 1, sender_id = 1, receiver_id = 2, original_message = ''hello'',
          translated_message = ''hola'', timestamp = 100\<rparr>,
         \<lparr>Message_id = 2, sender_id = 1, receiver_id = 3, original_message = ''x'',
          translated_message = ''x'', timestamp = 101\<rparr>,
         \<lparr>Message_id = 3, sender_id = 2, receiver_id = 1, original_message = ''si'',
          translated_message = ''yes'', timestamp = 102\<rparr>]\<rparr>"

section \<open>ConnectionManager: connect and disconnect\<close>

lemma connect_fst: "fst (connect ws u w) = Inr () \<longleftrightarrow> ws \<notin> broken w"
  by (simp add: connect_def accept_def)

lemma connect_ok:
  "ws \<notin> broken w \<Longrightarrow>
   connect ws u w =
     (Inr (), w\<lparr>trace := trace w @ [Accept ws],
                active_connections := (active_connections w)(u \<mapsto> ws)\<rparr>)"
  by (simp add: connect_def accept_def)

lemma disconnect_result: "fst (disconnect u w) = Inr ()"
  by (simp add: disconnect_def dict_pop_def split: option.splits)

lemma disconnect_world:
  "snd (disconnect u w) = w\<lparr>active_connections := (active_connections w)(u := None)\<rparr>"
proof (cases "active_connections w u")
  case None
  then have "(active_connections w)(u := None) = active_connections w"
    by (simp add: fun_upd_idem)
  with None show ?thesis
    by (simp add: disconnect_def dict_pop_def)
next
  case (Some c)
  then show ?thesis
    by (simp add: disconnect_def dict_pop_def)
qed

text \<open>
  C1, as the claim states it, at user 1 with channels 11 and 12 on an empty registry:
  the lookup gives channel 12, but no call ever closes channel 11, so it is not closed
  exactly once.
\<close>

theorem connect_twice_counterexample:
  "\<not> (lookup (snd (connect 12 1 (snd (connect 11 1 world0)))) 1 = Some 12 \<and>
      closes 11 (snd (connect 12 1 (snd (connect 11 1 world0)))) = 1)"
  by (simp add: connect_def accept_def world0_def closes_def lookup_def)

text \<open>
  C1, amended. When \<^verbatim>\<open>connect(c1, u)\<close> and then \<^verbatim>\<open>connect(c2, u)\<close> have both returned,
  the lookup of \<open>u\<close> gives \<open>c2\<close>. The only calls the registry made are the two
  \<^verbatim>\<open>accept\<close>s: the superseded channel \<open>c1\<close> is not closed by the registry (it is closed
  as often as before, so never twice, and it stays open).
\<close>

theorem connect_twice:
  assumes "fst (connect c1 u w) = Inr ()"
    and "fst (connect c2 u (snd (connect c1 u w))) = Inr ()"
  shows "lookup (snd (connect c2 u (snd (connect c1 u w)))) u = Some c2 \<and>
         trace (snd (connect c2 u (snd (connect c1 u w)))) = trace w @ [Accept c1, Accept c2] \<and>
         closes c1 (snd (connect c2 u (snd (connect c1 u w)))) = closes c1 w"
proof -
  from assms(1) have b1: "c1 \<notin> broken w"
    by (simp add: connect_fst)
  then have w1: "snd (connect c1 u w) =
      w\<lparr>trace := trace w @ [Accept c1], active_connections := (active_connections w)(u \<mapsto> c1)\<rparr>"
    by (simp add: connect_ok)
  from assms(2) have b2: "c2 \<notin> broken w"
    by (simp add: connect_fst w1)
  show ?thesis
    using b1 b2 by (simp add: w1 connect_ok lookup_def closes_def)
qed

theorem connect_twice_witness:
  "fst (connect 11 1 world0) = Inr () \<and>
   fst (connect 12 1 (snd (connect 11 1 world0))) = Inr () \<and>
   lookup (snd (connect 12 1 (snd (connect 11 1 world0)))) 1 = Some 12 \<and>
   trace (snd (connect 12 1 (snd (connect 11 1 world0)))) = [Accept 11, Accept 12] \<and>
   closes 11 (snd (connect 12 1 (snd (connect 11 1 world0)))) = 0"
proof -
  have h1: "fst (connect 11 1 world0) = Inr ()"
    by (simp add: connect_def accept_def world0_def)
  have h2: "fst (connect 12 1 (snd (connect 11 1 world0))) = Inr ()"
    by (simp add: connect_def accept_def world0_def)
  have t0: "trace world0 = []" "closes 11 world0 = 0"
    by (simp_all add: world0_def closes_def)
  show ?thesis
    using h1 h2 connect_twice [OF h1 h2] t0 by simp
qed

text \<open>
  C2, as the claim states it, at user 1: channel 11 registers, channel 12 registers, and
  the disconnect of the first connection runs. The lookup no longer gives channel 12.
\<close>

theorem stale_disconnect_counterexample:
  "\<not> (lookup (snd (disconnect 1 (snd (connect 12 1 (snd (connect 11 1 world0)))))) 1 = Some 12)"
  by (simp add: disconnect_def dict_pop_def connect_def accept_def world0_def lookup_def)

text \<open>
  C2, amended. \<^verbatim>\<open>disconnect(u)\<close> takes no channel: it removes the mapping of \<open>u\<close>
  whichever channel is registered for it, leaves the mappings of all other users as
  they are, and touches neither the database nor any WebSocket. So after
  \<^verbatim>\<open>connect(c1, u)\<close> and \<^verbatim>\<open>connect(c2, u)\<close>, the disconnect of the first connection leaves
  \<open>u\<close> without a channel.
\<close>

theorem disconnect_removes_whatever_channel:
  "lookup (snd (disconnect u w)) u = None \<and>
   (\<forall>v. v \<noteq> u \<longrightarrow> lookup (snd (disconnect u w)) v = lookup w v) \<and>
   trace (snd (disconnect u w)) = trace w \<and> db (snd (disconnect u w)) = db w"
  by (simp add: disconnect_world lookup_def)

theorem disconnect_removes_whatever_channel_witness:
  "(2::int) \<noteq> 1 \<and>
   lookup (snd (disconnect 1 (snd (connect 12 1 (snd (connect 11 1 world0)))))) 1 = None \<and>
   lookup (snd (disconnect 1 (snd (connect 12 1 (snd (connect 11 1 world0)))))) 2 =
     lookup (snd (connect 12 1 (snd (connect 11 1 world0)))) 2"
  using disconnect_removes_whatever_channel [of 1 "snd (connect 12 1 (snd (connect 11 1 world0)))"]
  by simp

text \<open>
  C10. \<^verbatim>\<open>disconnect(u)\<close> never raises, whatever the registry holds; when \<open>u\<close> has no
  registered channel it leaves the whole state as it was; and a second call after a
  first one changes nothing more.
\<close>

theorem disconnect_total_idempotent:
  "fst (disconnect u w) = Inr () \<and>
   (active_connections w u = None \<longrightarrow> snd (disconnect u w) = w) \<and>
   disconnect u (snd (disconnect u w)) = disconnect u w"
proof (intro conjI impI)
  show "fst (disconnect u w) = Inr ()"
    by (rule disconnect_result)
  show "snd (disconnect u w) = w" if "active_connections w u = None"
    using that by (simp add: disconnect_def dict_pop_def)
  show "disconnect u (snd (disconnect u w)) = disconnect u w"
    by (rule prod_eqI) (simp_all add: disconnect_result disconnect_world)
qed

theorem disconnect_total_idempotent_witness:
  "active_connections world0 7 = None \<and>
   fst (disconnect 7 world0) = Inr () \<and>
   snd (disconnect 7 world0) = world0 \<and>
   disconnect 7 (snd (disconnect 7 world0)) = disconnect 7 world0"
proof -
  have h: "active_connections world0 7 = None"
    by (simp add: world0_def)
  show ?thesis
    using h disconnect_total_idempotent [of 7 world0] by simp
qed

section \<open>ConnectionManager: send_personal_message\<close>

lemma send_personal_message_db: "db (snd (send_personal_message f u w)) = db w"
  by (simp add: send_personal_message_def send_json_def split: option.splits)


text \<open>
  C3, as the claim states it, at Bob's channel 21 whose transport has failed: the push
  raises, the exception reaches the caller, and channel 21 stays registered.
\<close>

theorem send_raises_counterexample:
  "fst (send_personal_message [(''id'', JInt 1)] 2 world_dead) = Inl TransportError \<and>
   lookup (snd (send_personal_message [(''id'', JInt 1)] 2 world_dead)) 2 = Some 21"
  by (simp add: send_personal_message_def send_json_def world_dead_def connect_def accept_def
      world0_def lookup_def)

text \<open>
  C3, amended. \<^verbatim>\<open>send_personal_message(frame, u)\<close> returns no value. With no channel
  registered for \<open>u\<close> it does nothing and returns. With a channel registered it pushes
  the frame on it and returns; when that push fails, the transport error is raised to
  the caller and the state, the registry included, is left as it was: the channel is
  not unregistered.
\<close>

theorem send_personal_message_cases:
  "(lookup w u = None \<longrightarrow> send_personal_message f u w = (Inr (), w)) \<and>
   (\<forall>ws. lookup w u = Some ws \<and> ws \<notin> broken w \<longrightarrow>
      send_personal_message f u w = (Inr (), w\<lparr>trace := trace w @ [SendJson ws f]\<rparr>)) \<and>
   (\<forall>ws. lookup w u = Some ws \<and> ws \<in> broken w \<longrightarrow>
      send_personal_message f u w = (Inl TransportError, w))"
  by (simp add: send_personal_message_def send_json_def lookup_def)

theorem send_personal_message_cases_witness:
  "lookup world0 2 = None \<and>
   send_personal_message [(''id'', JInt 1)] 2 world0 = (Inr (), world0) \<and>
   lookup (snd (connect 21 2 world0)) 2 = Some 21 \<and> 21 \<notin> broken (snd (connect 21 2 world0)) \<and>
   trace (snd (send_personal_message [(''id'', JInt 1)] 2 (snd (connect 21 2 world0)))) =
     [Accept 21, SendJson 21 [(''id'', JInt 1)]] \<and>
   lookup world_dead 2 = Some 21 \<and> 21 \<in> broken world_dead \<and>
   send_personal_message [(''id'', JInt 1)] 2 world_dead = (Inl TransportError, world_dead)"
proof -
  have h1: "lookup world0 2 = None"
    by (simp add: lookup_def world0_def)
  have h2: "lookup (snd (connect 21 2 world0)) 2 = Some 21 \<and>
            21 \<notin> broken (snd (connect 21 2 world0))"
    by (simp add: lookup_def world0_def connect_def accept_def)
  have h3: "lookup world_dead 2 = Some 21 \<and> 21 \<in> broken world_dead"
    by (simp add: lookup_def world0_def connect_def accept_def world_dead_def)
  have t: "trace (snd (connect 21 2 world0)) = [Accept 21]"
    by (simp add: world0_def connect_def accept_def)
  show ?thesis
    using h1 h2 h3 t
      send_personal_message_cases [of world0 2 "[(''id'', JInt 1)]"]
      send_personal_message_cases [of "snd (connect 21 2 world0)" 2 "[(''id'', JInt 1)]"]
      send_personal_message_cases [of world_dead 2 "[(''id'', JInt 1)]"]
    by simp
qed

section \<open>The per-frame protocol\<close>

lemma query_user_first_id: "query_user_first d rid = Some receiver \<Longrightarrow> User_id receiver = rid"
  by (auto simp: query_user_first_def find_Some_iff)

lemma handle_frame_valid:
  "query_user_first (db w) rid = Some receiver \<Longrightarrow>
   handle_frame env user (Object (Some rid) (Some msg)) w =
     send_personal_message
       (outbound user rid
          (new_Message w (User_id user) rid msg (translate_text env msg (language receiver))))
       rid
       (add_commit
          (new_Message w (User_id user) rid msg (translate_text env msg (language receiver))) w)"
  by (simp add: handle_frame_def getitem_receiver_id_def getitem_message_def Let_def)


text \<open>
  C4. For a frame \<^verbatim>\<open>{"receiver_id": rid, "message": msg}\<close> whose receiver is a row of the
  users table, the messages table afterwards is the table before with exactly one row
  appended: sender and receiver as in the frame, the original text, and as translated
  text the translator's output for the receiver's language, or the original text when
  the translator raises. This holds whatever the delivery does.
\<close>

theorem one_message_persisted:
  assumes "query_user_first (db w) rid = Some receiver"
  shows "messages (db (snd (handle_frame env user (Object (Some rid) (Some msg)) w))) =
           messages (db w) @
             [\<lparr>Message_id = next_id (messages (db w)), sender_id = User_id user,
               receiver_id = rid, original_message = msg,
               translated_message =
                 (case translator_translate env msg (language receiver) of
                    Some translation \<Rightarrow> translation | None \<Rightarrow> msg),
               timestamp = now w\<rparr>]"
  by (simp add: handle_frame_valid [OF assms] send_personal_message_db add_commit_def
      new_Message_def translate_text_def)

theorem one_message_persisted_witness:
  "query_user_first (db world0) 2 = Some bob \<and>
   messages (db (snd (handle_frame env0 alice (Object (Some 2) (Some ''hello'')) world0))) =
     [\<lparr>Message_id = 1, sender_id = 1, receiver_id = 2, original_message = ''hello'',
       translated_message = ''hola'', timestamp = 100\<rparr>] \<and>
   messages (db (snd (handle_frame env0 alice (Object (Some 2) (Some ''bye'')) world0))) =
     [\<lparr>Message_id = 1, sender_id = 1, receiver_id = 2, original_message = ''bye'',
       translated_message = ''bye'', timestamp = 100\<rparr>]"
proof -
  have h: "query_user_first (db world0) 2 = Some bob"
    by (simp add: query_user_first_def world0_def alice_def bob_def)
  have e: "translator_translate env0 ''hello'' (language bob) = Some ''hola''"
    "translator_translate env0 ''bye'' (language bob) = None"
    by (simp_all add: env0_def bob_def)
  have n: "messages (db world0) = []" "now world0 = 100" "User_id alice = 1"
    by (simp_all add: world0_def alice_def)
  show ?thesis
    using h one_message_persisted [OF h, of env0 alice "''hello''"]
      one_message_persisted [OF h, of env0 alice "''bye''"]
    by (simp add: e n next_id_def)
qed

text \<open>
  C5. The database after a frame does not depend on the registry or on the state of any
  transport: the row is committed before the push is tried, and a push that is skipped
  or fails does not undo it. When the receiver exists and has no registered channel,
  the frame is handled without error, no call is made on any WebSocket, and the new row
  is in the answer of the query endpoint for the sender asking about the receiver and
  for the receiver asking about the sender.
\<close>

theorem persisted_whatever_delivery:
  "db (snd (handle_frame env user d (w\<lparr>active_connections := a, broken := b\<rparr>))) =
     db (snd (handle_frame env user d w)) \<and>
   (query_user_first (db w) rid = Some receiver \<and> lookup w rid = None \<longrightarrow>
        fst (handle_frame env user (Object (Some rid) (Some msg)) w) = Inr () \<and>
        trace (snd (handle_frame env user (Object (Some rid) (Some msg)) w)) = trace w \<and>
        new_Message w (User_id user) rid msg (translate_text env msg (language receiver))
          \<in> set (get_messages (db (snd (handle_frame env user (Object (Some rid) (Some msg)) w)))
                  user rid) \<and>
        new_Message w (User_id user) rid msg (translate_text env msg (language receiver))
          \<in> set (get_messages (db (snd (handle_frame env user (Object (Some rid) (Some msg)) w)))
                  receiver (User_id user)))"
proof (intro conjI impI)
  show "db (snd (handle_frame env user d (w\<lparr>active_connections := a, broken := b\<rparr>))) =
     db (snd (handle_frame env user d w))"
    by (simp add: handle_frame_def Let_def send_personal_message_db add_commit_def new_Message_def
        split: sum.splits option.splits)
next
  assume h: "query_user_first (db w) rid = Some receiver \<and> lookup w rid = None"
  let ?m = "new_Message w (User_id user) rid msg (translate_text env msg (language receiver))"
  let ?r = "handle_frame env user (Object (Some rid) (Some msg)) w"
  from h have none: "active_connections (add_commit ?m w) rid = None"
    by (simp add: lookup_def add_commit_def)
  from h have r: "?r = (Inr (), add_commit ?m w)"
    by (simp add: handle_frame_valid send_personal_message_def none)
  show "fst ?r = Inr ()" by (simp add: r)
  show "trace (snd ?r) = trace w" by (simp add: r add_commit_def)
  show "?m \<in> set (get_messages (db (snd ?r)) user rid)"
    by (simp add: r add_commit_def get_messages_def new_Message_def)
  from h have "User_id receiver = rid"
    using query_user_first_id by blast
  then show "?m \<in> set (get_messages (db (snd ?r)) receiver (User_id user))"
    by (simp add: r add_commit_def get_messages_def new_Message_def)
qed

theorem persisted_whatever_delivery_witness:
  "query_user_first (db world0) 2 = Some bob \<and> lookup world0 2 = None \<and>
   fst (handle_frame env0 alice (Object (Some 2) (Some ''hello'')) world0) = Inr () \<and>
   trace (snd (handle_frame env0 alice (Object (Some 2) (Some ''hello'')) world0)) = [] \<and>
   \<lparr>Message_id = 1, sender_id = 1, receiver_id = 2, original_message = ''hello'',
     translated_message = ''hola'', timestamp = 100\<rparr>
     \<in> set (get_messages (db (snd (handle_frame env0 alice (Object (Some 2) (Some ''hello'')) world0)))
             bob (User_id alice))"
proof -
  have h: "query_user_first (db world0) 2 = Some bob \<and> lookup world0 2 = None"
    by (simp add: query_user_first_def world0_def alice_def bob_def lookup_def)
  have m: "new_Message world0 (User_id alice) 2 ''hello''
             (translate_text env0 ''hello'' (language bob)) =
    \<lparr>Message_id = 1, sender_id = 1, receiver_id = 2, original_message = ''hello'',
     translated_message = ''hola'', timestamp = 100\<rparr>"
    by (simp add: new_Message_def world0_def alice_def bob_def translate_text_def env0_def
        next_id_def)
  have t: "trace world0 = []"
    by (simp add: world0_def)
  show ?thesis
    using h persisted_whatever_delivery [where env = env0 and user = alice and d = NotObject
        and w = world0 and a = Map.empty and b = "{}" and rid = 2 and receiver = bob
        and msg = "''hello''"]
    by (simp add: m t)
qed

text \<open>
  C6. A frame whose receiver id is the id of no row of the users table is dropped: the
  handler goes on to the next frame without an exception, and nothing has changed, so no
  row was added and no call was made on any WebSocket, the sender's included. This is so
  whether or not the frame has a message field.
\<close>

theorem unknown_receiver_dropped:
  "query_user_first (db w) rid = None \<Longrightarrow>
   handle_frame env user (Object (Some rid) m) w = (Inr (), w)"
  by (simp add: handle_frame_def getitem_receiver_id_def)

theorem unknown_receiver_dropped_witness:
  "query_user_first (db world0) 9 = None \<and>
   handle_frame env0 alice (Object (Some 9) (Some ''hello'')) world0 = (Inr (), world0)"
proof -
  have h: "query_user_first (db world0) 9 = None"
    by (simp add: query_user_first_def world0_def alice_def bob_def)
  show ?thesis
    using h unknown_receiver_dropped [OF h, of env0 alice "Some ''hello''"] by simp
qed

section \<open>The connection's life cycle\<close>

text \<open>On every path that fails to authenticate, the registry is left as it was.\<close>

lemma auth_failure_registry_unchanged:
  assumes "jwt_decode env token = None \<or>
           (\<exists>p. jwt_decode env token = Some p \<and>
                (p ''sub'' = None \<or> p ''sub'' = Some [] \<or>
                 get_user env (db w) (the (p ''sub'')) = None))"
  shows "active_connections (snd (websocket_endpoint env ws token inbound w)) = active_connections w"
  using assms
  by (auto simp: websocket_endpoint_def close_and_return_def session_block_def SessionLocal_def
      db_close_def on_exception_def close_def split: option.splits)

text \<open>
  C7. The code at a token that \<^verbatim>\<open>jwt.decode\<close> rejects: the handler returns with the state
  untouched, so the registry is unchanged, but no \<^verbatim>\<open>close\<close> was called on the WebSocket.
  The two other failures, a token without a subject and a subject that is no user, do
  close it with code 1008.
\<close>

theorem invalid_token_not_closed:
  "jwt_decode env0 ''garbage'' = None \<and>
   websocket_endpoint env0 31 ''garbage'' [] world0 = (Returned, world0) \<and>
   trace world0 = [] \<and>
   trace (snd (websocket_endpoint env0 31 ''E'' [] world0)) = [Close 31 1008] \<and>
   trace (snd (websocket_endpoint env0 31 ''C'' [] world0)) = [Close 31 1008]"
  by (simp add: websocket_endpoint_def close_and_return_def session_block_def SessionLocal_def
      db_close_def on_exception_def env0_def world0_def close_def alice_def bob_def)









section \<open>The query endpoint: get_messages\<close>

text \<open>
  C9, as the claim states it, at a table whose second row between Alice and Bob carries
  an earlier timestamp than the first: the answer keeps the table's order and is not
  ordered by timestamp.
\<close>

theorem get_messages_order_counterexample:
  "\<not> sorted (map timestamp (get_messages store_clock_back alice 2))"
  by (simp add: get_messages_def store_clock_back_def alice_def)

text \<open>
  C9, amended. The query endpoint returns exactly the rows in which the principal and
  the target are sender and receiver in either direction, each as often and in the
  order in which the table holds them. It does not order them: the answer is ordered by
  timestamp when the table's rows are.
\<close>

theorem get_messages_rows:
  "set (get_messages d p t) =
     {m \<in> set (messages d).
        (sender_id m = User_id p \<and> receiver_id m = t) \<or>
        (sender_id m = t \<and> receiver_id m = User_id p)} \<and>
   subseq (get_messages d p t) (messages d) \<and>
   (sorted (map timestamp (messages d)) \<longrightarrow> sorted (map timestamp (get_messages d p t)))"
proof (intro conjI impI)
  show "set (get_messages d p t) =
     {m \<in> set (messages d).
        (sender_id m = User_id p \<and> receiver_id m = t) \<or>
        (sender_id m = t \<and> receiver_id m = User_id p)}"
    by (simp add: get_messages_def)
  show "subseq (get_messages d p t) (messages d)"
    by (simp add: get_messages_def)
  show "sorted (map timestamp (get_messages d p t))" if "sorted (map timestamp (messages d))"
    using that unfolding get_messages_def by (rule sorted_filter)
qed

theorem get_messages_rows_witness:
  "sorted (map timestamp (messages store_three)) \<and>
   map Message_id (get_messages store_three alice 2) = [1, 3] \<and>
   sorted (map timestamp (get_messages store_three alice 2))"
proof -
  have h: "sorted (map timestamp (messages store_three))"
    by (simp add: store_three_def)
  have r: "map Message_id (get_messages store_three alice 2) = [1, 3]"
    by (simp add: get_messages_def store_three_def alice_def)
  show ?thesis
    using h r get_messages_rows [of store_three alice 2] by simp
qed

end
